theory Spec2Isabelle
  imports Complex_Main "HOL-Library.AList"
begin

section \<open>Python values and exceptions\<close>

text \<open>
  The exceptions that the modelled functions can raise. \<open>ExternalError\<close> stands for a
  failure inside a library call (yt-dlp extraction, the voice connection, ffmpeg).
\<close>

datatype py_error = KeyError | IndexError | TypeError | AttributeError | TclError | ExternalError

text \<open>
  A dict is an association list in insertion order; its keys are distinct.
  \<open>d[k]\<close> raises \<open>KeyError\<close> on a missing key, \<open>d[k] = v\<close> is \<^const>\<open>AList.update\<close>
  (overwrite in place, or append), \<open>d.pop(k)\<close> is \<^const>\<open>AList.delete\<close>.
\<close>

definition dict_get :: "('k \<times> 'v) list \<Rightarrow> 'k \<Rightarrow> py_error + 'v" where
  "dict_get d k = (case map_of d k of None \<Rightarrow> Inl KeyError | Some v \<Rightarrow> Inr v)"

definition dict_has :: "('k \<times> 'v) list \<Rightarrow> 'k \<Rightarrow> bool" where
  "dict_has d k = (k \<in> set (map fst d))"

text \<open>
  A track record: the keys \<open>title\<close>, \<open>url\<close> and \<open>vid\<close>, the values strings or
  \<open>None\<close>.
\<close>

type_synonym track = "(string \<times> string option) list"

section \<open>discord\_client.py: the playback state\<close>

text \<open>
  Every field of \<open>PlayingState\<close> can hold \<open>None\<close>: the class is a dataclass with
  \<open>slots=True\<close>, so the field defaults live in \<open>__init__\<close> only, and \<open>clear\<close> reads each
  field of an uninitialised instance with \<open>getattr(default, name, None)\<close>.
  Timestamps are the values of \<open>time.time()\<close>, taken as exact numbers.
\<close>

record PlayingState =
  title :: "string option"
  src_url :: "string option"
  thumb_url :: "string option"
  duration :: "int option"
  start_time :: "real option"
  paused :: "bool option"
  pause_at :: "real option"
  preview_loaded :: "nat option"
  preview_loader_started :: "bool option"

text \<open>\<open>PlayingState()\<close>: the instance built by the generated \<open>__init__\<close>.\<close>

definition PLAYING_STATE_init :: PlayingState where
  "PLAYING_STATE_init =
     \<lparr>title = Some [], src_url = Some [], thumb_url = Some [], duration = Some 0,
      start_time = Some 0, paused = Some False, pause_at = Some 0,
      preview_loaded = None, preview_loader_started = Some False\<rparr>"

text \<open>
  \<open>clear\<close>: \<open>PlayingState.__new__(PlayingState)\<close> has no slot filled, every
  \<open>getattr(default, name, None)\<close> falls back to \<open>None\<close>.
\<close>

definition clear :: "PlayingState \<Rightarrow> PlayingState" where
  "clear st =
     st\<lparr>title := None, src_url := None, thumb_url := None, duration := None,
        start_time := None, paused := None, pause_at := None,
        preview_loaded := None, preview_loader_started := None\<rparr>"

definition bool_str :: "string option \<Rightarrow> bool" where
  "bool_str v = (case v of None \<Rightarrow> False | Some s \<Rightarrow> s \<noteq> [])"

definition bool_flag :: "bool option \<Rightarrow> bool" where
  "bool_flag v = (case v of None \<Rightarrow> False | Some b \<Rightarrow> b)"

definition is_playing :: "PlayingState \<Rightarrow> bool" where
  "is_playing st = bool_str (title st)"




section \<open>discord\_client.py: the voice client and the controller\<close>

datatype vc_status = Playing | Paused | Idle

record channel =
  ch_id :: int
  ch_voice :: bool
  ch_members :: "int list"
  ch_connect_ok :: bool

text \<open>
  \<open>bot\<close>: the connected voice clients, the channels \<open>get_channel\<close> knows and, for each
  guild, its voice channels.
\<close>

record bot_state =
  voice_clients :: "vc_status list"
  channels :: "channel list"
  guilds :: "channel list list"

text \<open>
  config.py and the machine: \<open>ffmpeg_ok\<close> says that \<open>FFMPEG_EXE\<close> starts, so that
  \<open>FFmpegPCMAudio\<close> and \<open>vc.play\<close> do not raise.
\<close>

record config =
  VOICE_ID :: int
  TARGET_USER_ID :: int
  ffmpeg_ok :: bool

text \<open>
  The keys of the yt-dlp info dict that \<open>start_playback\<close> reads: \<open>id\<close>, which yt-dlp
  always gives, and \<open>url\<close> and \<open>duration\<close>, where \<open>None\<close> is a missing key.
\<close>

record info =
  info_url :: "string option"
  info_id :: string
  info_duration :: "int option option"

record world =
  ps :: PlayingState
  bot :: bot_state
  ytdlp_cache :: "(string option \<times> info) list"

definition get_channel :: "bot_state \<Rightarrow> int \<Rightarrow> channel option" where
  "get_channel b i = find (\<lambda>c. ch_id c = i) (channels b)"

text \<open>\<open>ch.connect()\<close>: a new voice client joins \<open>bot.voice_clients\<close>, or the call raises.\<close>

definition connect :: "channel \<Rightarrow> bot_state \<Rightarrow> py_error option \<times> nat option \<times> bot_state" where
  "connect ch b =
     (if ch_connect_ok ch
      then (None, Some (length (voice_clients b)), b\<lparr>voice_clients := voice_clients b @ [Idle]\<rparr>)
      else (Some ExternalError, None, b))"

text \<open>
  \<open>ensure_join\<close> returns the raised exception if any, the index of the voice client in
  \<open>bot.voice_clients\<close> (\<open>None\<close> for Python's \<open>None\<close>) and the bot.
\<close>

definition ensure_join :: "config \<Rightarrow> bot_state \<Rightarrow> py_error option \<times> nat option \<times> bot_state" where
  "ensure_join cfg b =
     (if voice_clients b \<noteq> [] then (None, Some 0, b)
      else
        (case (if VOICE_ID cfg \<noteq> 0
               then (case get_channel b (VOICE_ID cfg) of
                       None \<Rightarrow> None
                     | Some ch \<Rightarrow> if ch_voice ch then Some ch else None)
               else None) of
           Some ch \<Rightarrow> connect ch b
         | None \<Rightarrow>
             (case find (\<lambda>ch. TARGET_USER_ID cfg \<in> set (ch_members ch)) (concat (guilds b)) of
                Some ch \<Rightarrow> connect ch b
              | None \<Rightarrow> (None, None, b))))"

text \<open>
  \<open>ytdlp_info\<close> (youtube\_utils.py): the cached info, or the extraction's result stored in
  the cache. \<open>extract\<close> is yt-dlp's \<open>extract_info\<close> followed by the completion of the
  \<open>thumbnail\<close> key, which nothing here reads.
\<close>

definition ytdlp_info ::
  "(string option \<Rightarrow> py_error + info) \<Rightarrow> string option \<Rightarrow> world \<Rightarrow> (py_error + info) \<times> world" where
  "ytdlp_info extract url w =
     (case map_of (ytdlp_cache w) url of
        Some i \<Rightarrow> (Inr i, w)
      | None \<Rightarrow>
          (case extract url of
             Inl e \<Rightarrow> (Inl e, w)
           | Inr i \<Rightarrow> (Inr i, w\<lparr>ytdlp_cache := AList.update url i (ytdlp_cache w)\<rparr>)))"

text \<open>The stream replacement under \<open>vc_lock\<close>: stop what plays or is paused, then play.\<close>

definition replace_stream :: "config \<Rightarrow> info \<Rightarrow> nat \<Rightarrow> bot_state \<Rightarrow> py_error option \<times> bot_state" where
  "replace_stream cfg i n b =
     (let b1 = (if voice_clients b ! n = Playing \<or> voice_clients b ! n = Paused
                then b\<lparr>voice_clients := (voice_clients b)[n := Idle]\<rparr> else b)
      in case info_url i of
           None \<Rightarrow> (Some KeyError, b1)
         | Some u \<Rightarrow>
             if ffmpeg_ok cfg
             then (None, b1\<lparr>voice_clients := (voice_clients b1)[n := Playing]\<rparr>)
             else (Some ExternalError, b1))"

text \<open>
  The writes to \<open>PLAYING_STATE\<close> that end \<open>start_playback\<close>, in the source's order; a
  missing key raises after the fields before it are written.
\<close>

definition update_state :: "track \<Rightarrow> info \<Rightarrow> real \<Rightarrow> PlayingState \<Rightarrow> py_error option \<times> PlayingState" where
  "update_state tr i now st =
     (let s0 = clear st in
      case dict_get tr ''title'' of
        Inl e \<Rightarrow> (Some e, s0)
      | Inr t \<Rightarrow>
          (let s1 = s0\<lparr>title := t\<rparr> in
           case dict_get tr ''url'' of
             Inl e \<Rightarrow> (Some e, s1)
           | Inr u \<Rightarrow>
               (None,
                s1\<lparr>src_url := u,
                   thumb_url := Some (''https://i.ytimg.com/vi/'' @ info_id i @ ''/hqdefault.jpg''),
                   duration := (case info_duration i of None \<Rightarrow> Some 0 | Some d \<Rightarrow> d),
                   start_time := Some now,
                   preview_loaded := None,
                   preview_loader_started := Some False\<rparr>)))"

definition start_playback ::
  "config \<Rightarrow> (string option \<Rightarrow> py_error + info) \<Rightarrow> real \<Rightarrow> track option \<Rightarrow> world \<Rightarrow> py_error option \<times> world" where
  "start_playback cfg extract now track w =
     (case track of
        None \<Rightarrow> (None, w)
      | Some tr \<Rightarrow>
          if tr = [] then (None, w)
          else
            (case dict_get tr ''url'' of
               Inl e \<Rightarrow> (Some e, w)
             | Inr url \<Rightarrow>
                 (case ytdlp_info extract url w of
                    (Inl e, w1) \<Rightarrow> (Some e, w1)
                  | (Inr i, w1) \<Rightarrow>
                      (case ensure_join cfg (bot w1) of
                         (Some e, _, b1) \<Rightarrow> (Some e, w1\<lparr>bot := b1\<rparr>)
                       | (None, None, b1) \<Rightarrow> (None, w1\<lparr>bot := b1\<rparr>)
                       | (None, Some n, b1) \<Rightarrow>
                           (case replace_stream cfg i n b1 of
                              (Some e, b2) \<Rightarrow> (Some e, w1\<lparr>bot := b2\<rparr>)
                            | (None, b2) \<Rightarrow>
                                (case update_state tr i now (ps w1) of
                                   (err, st) \<Rightarrow> (err, w1\<lparr>bot := b2, ps := st\<rparr>)))))))"



section \<open>json.dump and json.load on playlist stores\<close>

text \<open>
  The store is a dict from playlist names to lists of track records. A Python \<open>str\<close> is
  modelled by its UTF-8 encoding, one \<^typ>\<open>char\<close> per byte, which is also what the file
  holds (\<open>encoding="utf8"\<close>); a \<open>str\<close> with a lone surrogate has no encoding and is
  outside the model. \<open>json.dump(data, f, ensure_ascii=False, indent=2)\<close> writes non-ASCII
  bytes as they are and escapes the quote, the backslash and the control characters.
\<close>

type_synonym store = "(string \<times> track list) list"

definition hex_digit :: "nat \<Rightarrow> char" where
  "hex_digit n = ''0123456789abcdef'' ! n"

definition escape_char :: "char \<Rightarrow> string" where
  "escape_char c =
     (if c = CHR 0x5C then [CHR 0x5C, CHR 0x5C]
      else if c = CHR 0x22 then [CHR 0x5C, CHR 0x22]
      else if c = CHR 0x08 then [CHR 0x5C, CHR ''b'']
      else if c = CHR 0x0C then [CHR 0x5C, CHR ''f'']
      else if c = CHR 0x0A then [CHR 0x5C, CHR ''n'']
      else if c = CHR 0x0D then [CHR 0x5C, CHR ''r'']
      else if c = CHR 0x09 then [CHR 0x5C, CHR ''t'']
      else if (of_char c :: nat) < 32 then
        [CHR 0x5C, CHR ''u'', CHR ''0'', CHR ''0'',
         hex_digit (of_char c div 16), hex_digit (of_char c mod 16)]
      else [c])"

definition encode_basestring :: "string \<Rightarrow> string" where
  "encode_basestring s = CHR 0x22 # concat (map escape_char s) @ [CHR 0x22]"

definition newline_indent :: "nat \<Rightarrow> string" where
  "newline_indent level = CHR 0x0A # replicate (2 * level) (CHR 0x20)"

definition encode_value :: "string option \<Rightarrow> string" where
  "encode_value v = (case v of None \<Rightarrow> ''null'' | Some s \<Rightarrow> encode_basestring s)"

fun join_items :: "string \<Rightarrow> string list \<Rightarrow> string" where
  "join_items sep [] = []"
| "join_items sep [x] = x"
| "join_items sep (x # y # ys) = x @ sep @ join_items sep (y # ys)"

definition encode_dict :: "(nat \<Rightarrow> 'v \<Rightarrow> string) \<Rightarrow> nat \<Rightarrow> (string \<times> 'v) list \<Rightarrow> string" where
  "encode_dict enc level d =
     (if d = [] then ''{}''
      else ''{'' @ newline_indent (level + 1)
           @ join_items (CHR '','' # newline_indent (level + 1))
               (map (\<lambda>(k, v). encode_basestring k @ '': '' @ enc (level + 1) v) d)
           @ newline_indent level @ ''}'')"

definition encode_list :: "(nat \<Rightarrow> 'v \<Rightarrow> string) \<Rightarrow> nat \<Rightarrow> 'v list \<Rightarrow> string" where
  "encode_list enc level xs =
     (if xs = [] then ''[]''
      else ''['' @ newline_indent (level + 1)
           @ join_items (CHR '','' # newline_indent (level + 1)) (map (enc (level + 1)) xs)
           @ newline_indent level @ '']'')"

definition json_dump :: "store \<Rightarrow> string" where
  "json_dump d = encode_dict (encode_list (encode_dict (\<lambda>_. encode_value))) 0 d"




































section \<open>playlist\_manager.py\<close>

text \<open>
  The manager: the file at \<open>self.path\<close> (\<open>None\<close> when there is no file) and \<open>self._data\<close>.
  Opening or writing the file can fail; \<open>save\<close> catches the exception and logs it.
\<close>

record PlaylistManager =
  path_file :: "string option"
  data :: store

datatype io = WriteOk | OpenFails | WriteFails nat

definition save :: "io \<Rightarrow> PlaylistManager \<Rightarrow> PlaylistManager" where
  "save io m =
     (case io of
        WriteOk \<Rightarrow> m\<lparr>path_file := Some (json_dump (data m))\<rparr>
      | OpenFails \<Rightarrow> m
      | WriteFails n \<Rightarrow> m\<lparr>path_file := Some (take n (json_dump (data m)))\<rparr>)"


definition add_playlist :: "io \<Rightarrow> string \<Rightarrow> PlaylistManager \<Rightarrow> PlaylistManager" where
  "add_playlist io name m =
     (if dict_has (data m) name then m
      else save io (m\<lparr>data := AList.update name [] (data m)\<rparr>))"

definition rename_playlist :: "io \<Rightarrow> string \<Rightarrow> string \<Rightarrow> PlaylistManager \<Rightarrow> PlaylistManager" where
  "rename_playlist io old new m =
     (if \<not> dict_has (data m) old \<or> dict_has (data m) new then m
      else
        (case map_of (data m) old of
           None \<Rightarrow> m
         | Some tracks \<Rightarrow>
             save io (m\<lparr>data := AList.update new tracks (AList.delete old (data m))\<rparr>)))"

definition delete_playlist :: "io \<Rightarrow> string \<Rightarrow> PlaylistManager \<Rightarrow> PlaylistManager" where
  "delete_playlist io name m =
     (if dict_has (data m) name then save io (m\<lparr>data := AList.delete name (data m)\<rparr>) else m)"

text \<open>\<open>xs[i]\<close>: a negative index counts from the end, an index out of range raises.\<close>

definition py_index :: "'a list \<Rightarrow> int \<Rightarrow> py_error + nat" where
  "py_index xs i =
     (let n = int (length xs) in
      if 0 \<le> i \<and> i < n then Inr (nat i)
      else if - n \<le> i \<and> i < 0 then Inr (nat (n + i))
      else Inl IndexError)"

text \<open>
  \<open>xs[i], xs[j] = xs[j], xs[i]\<close> with \<open>j\<close> in range: both reads first, then the write at
  \<open>i\<close>, then the write at \<open>j\<close>.
\<close>

definition swap :: "'a list \<Rightarrow> int \<Rightarrow> nat \<Rightarrow> py_error + 'a list" where
  "swap xs i j =
     (case py_index xs i of
        Inl e \<Rightarrow> Inl e
      | Inr k \<Rightarrow> Inr ((xs[k := xs ! j])[j := xs ! k]))"

definition move_playlist :: "io \<Rightarrow> int \<Rightarrow> int \<Rightarrow> PlaylistManager \<Rightarrow> py_error option \<times> PlaylistManager" where
  "move_playlist io index delta m =
     (let keys = map fst (data m); new_idx = index + delta in
      if \<not> (0 \<le> new_idx \<and> new_idx < int (length keys)) then (None, m)
      else
        (case swap keys index (nat new_idx) of
           Inl e \<Rightarrow> (Some e, m)
         | Inr keys' \<Rightarrow>
             (None,
              save io (m\<lparr>data := List.map_filter
                                   (\<lambda>k. map_option (Pair k) (map_of (data m) k)) keys'\<rparr>))))"

definition tracks_of :: "PlaylistManager \<Rightarrow> string \<Rightarrow> py_error + track list" where
  "tracks_of m pl_name = (if \<not> dict_has (data m) pl_name then Inl KeyError else dict_get (data m) pl_name)"

definition add_track :: "io \<Rightarrow> string \<Rightarrow> track \<Rightarrow> PlaylistManager \<Rightarrow> py_error option \<times> PlaylistManager" where
  "add_track io pl_name tr m =
     (case tracks_of m pl_name of
        Inl e \<Rightarrow> (Some e, m)
      | Inr tracks \<Rightarrow> (None, save io (m\<lparr>data := AList.update pl_name (tracks @ [tr]) (data m)\<rparr>)))"

definition rename_track ::
  "io \<Rightarrow> string \<Rightarrow> int \<Rightarrow> string \<Rightarrow> PlaylistManager \<Rightarrow> py_error option \<times> PlaylistManager" where
  "rename_track io pl_name idx new_title m =
     (case tracks_of m pl_name of
        Inl e \<Rightarrow> (Some e, m)
      | Inr tracks \<Rightarrow>
          if 0 \<le> idx \<and> idx < int (length tracks) then
            (None,
             save io (m\<lparr>data := AList.update pl_name
                       (tracks[nat idx := AList.update ''title'' (Some new_title) (tracks ! nat idx)])
                       (data m)\<rparr>))
          else (None, m))"

definition delete_track :: "io \<Rightarrow> string \<Rightarrow> int \<Rightarrow> PlaylistManager \<Rightarrow> py_error option \<times> PlaylistManager" where
  "delete_track io pl_name idx m =
     (case tracks_of m pl_name of
        Inl e \<Rightarrow> (Some e, m)
      | Inr tracks \<Rightarrow>
          if 0 \<le> idx \<and> idx < int (length tracks) then
            (None,
             save io (m\<lparr>data := AList.update pl_name
                       (take (nat idx) tracks @ drop (Suc (nat idx)) tracks) (data m)\<rparr>))
          else (None, m))"

definition move_track ::
  "io \<Rightarrow> string \<Rightarrow> int \<Rightarrow> int \<Rightarrow> PlaylistManager \<Rightarrow> py_error option \<times> PlaylistManager" where
  "move_track io pl_name idx delta m =
     (case tracks_of m pl_name of
        Inl e \<Rightarrow> (Some e, m)
      | Inr tracks \<Rightarrow>
          (let new_idx = idx + delta in
           if 0 \<le> new_idx \<and> new_idx < int (length tracks) then
             (case swap tracks idx (nat new_idx) of
                Inl e \<Rightarrow> (Some e, m)
              | Inr tracks' \<Rightarrow>
                  (None, save io (m\<lparr>data := AList.update pl_name tracks' (data m)\<rparr>)))
           else (None, m)))"

section \<open>gui.py: the end-of-track policy\<close>

text \<open>
  The part of \<open>MusicGUI\<close> that the policy reads and writes: the manager, the mode, the
  current track, the playlist listbox (items and \<open>curselection\<close>) and the track tree (item
  ids, selection, focus). The tree's item ids are the track indices that \<open>refresh_tracks\<close>
  inserted.
\<close>

record MusicGUI =
  pm :: PlaylistManager
  mode_var :: string
  current_track :: "track option"
  pl_lb :: "string list"
  pl_curselection :: "nat list"
  tr_tv :: "nat list"
  tr_selection :: "nat list"
  tr_focus :: "nat option"

text \<open>The coroutines that \<open>run_async\<close> hands to the bot's event loop.\<close>

datatype coro = StartPlayback track | Halt

text \<open>\<open>Listbox.get(i)\<close>: the item, or the empty string out of range.\<close>

definition lb_get :: "MusicGUI \<Rightarrow> nat \<Rightarrow> string" where
  "lb_get g i = (if i < length (pl_lb g) then pl_lb g ! i else [])"

definition selected_track :: "MusicGUI \<Rightarrow> py_error + track option" where
  "selected_track g =
     (case pl_curselection g of
        [] \<Rightarrow> Inr None
      | p # _ \<Rightarrow>
          (case tr_selection g of
             [] \<Rightarrow> Inr None
           | i # _ \<Rightarrow>
               (case dict_get (data (pm g)) (lb_get g p) of
                  Inl e \<Rightarrow> Inl e
                | Inr tracks \<Rightarrow>
                    if i < length tracks then Inr (Some (tracks ! i)) else Inl IndexError)))"

definition play_selected :: "MusicGUI \<Rightarrow> py_error option \<times> MusicGUI \<times> coro list" where
  "play_selected g =
     (case selected_track g of
        Inl e \<Rightarrow> (Some e, g, [])
      | Inr None \<Rightarrow> (None, g, [])
      | Inr (Some tr) \<Rightarrow>
          if tr \<noteq> [] then (None, g\<lparr>current_track := Some tr\<rparr>, [StartPlayback tr])
          else (None, g, []))"

text \<open>
  \<open>selection_set(str(idx))\<close>, \<open>focus(str(idx))\<close> and \<open>play_selected()\<close>; Tk raises
  \<open>TclError\<close> for an item that the tree does not have.
\<close>

definition select_and_play :: "nat \<Rightarrow> MusicGUI \<Rightarrow> py_error option \<times> MusicGUI \<times> coro list" where
  "select_and_play idx g =
     (if idx \<notin> set (tr_tv g) then (Some TclError, g, [])
      else play_selected (g\<lparr>tr_selection := [idx], tr_focus := Some idx\<rparr>))"

text \<open>
  The coroutine \<open>_halt\<close> reads \<open>BOT_LOOP.voice_clients\<close>. \<open>BOT_LOOP\<close> is the asyncio event
  loop; the voice clients are an attribute of \<open>bot\<close>, and the loop has no attribute of that
  name, so the read raises and no voice client is touched.
\<close>

definition halt :: "world \<Rightarrow> py_error option \<times> world" where
  "halt w = (Some AttributeError, w)"

text \<open>
  \<open>on_track_end\<close>, with \<open>randrange n\<close> the value that \<open>random.randrange(n)\<close> returns. The
  result is the raised exception if any, the GUI, the playback state and the dispatched
  coroutines.
\<close>

definition on_track_end ::
  "(nat \<Rightarrow> nat) \<Rightarrow> MusicGUI \<Rightarrow> PlayingState \<Rightarrow> py_error option \<times> MusicGUI \<times> PlayingState \<times> coro list" where
  "on_track_end randrange g st =
     (if mode_var g = ''loop'' \<and> current_track g \<noteq> None \<and> current_track g \<noteq> Some [] then
        (None, g, st, (case current_track g of None \<Rightarrow> [] | Some tr \<Rightarrow> [StartPlayback tr]))
      else if mode_var g = ''next'' then
        (case pl_curselection g of
           [] \<Rightarrow> (None, g, st, [])
         | p # _ \<Rightarrow>
             (case dict_get (data (pm g)) (lb_get g p) of
                Inl e \<Rightarrow> (Some e, g, st, [])
              | Inr tracks \<Rightarrow>
                  if tracks = [] then (None, g, st, [])
                  else
                    (let cur = (case tr_selection g of [] \<Rightarrow> - 1 | c # _ \<Rightarrow> int c);
                         nxt = nat ((cur + 1) mod int (length tracks))
                     in case select_and_play nxt g of (err, g', cs) \<Rightarrow> (err, g', st, cs))))
      else if mode_var g = ''random'' then
        (case pl_curselection g of
           [] \<Rightarrow> (None, g, st, [])
         | p # _ \<Rightarrow>
             (case dict_get (data (pm g)) (lb_get g p) of
                Inl e \<Rightarrow> (Some e, g, st, [])
              | Inr tracks \<Rightarrow>
                  if tracks = [] then (None, g, st, [])
                  else
                    (case select_and_play (randrange (length tracks)) g of
                       (err, g', cs) \<Rightarrow> (err, g', st, cs))))
      else (None, g\<lparr>current_track := None\<rparr>, clear st, [Halt]))"


section \<open>The states the program can reach\<close>









section \<open>Invariants, text fragments and example states\<close>


definition synced :: "world \<Rightarrow> bool" where
  "synced w \<longleftrightarrow>
     length (voice_clients (bot w)) \<le> 1 \<and>
     (is_playing (ps w) \<and> voice_clients (bot w) = [Paused] \<longrightarrow> bool_flag (paused (ps w)))"




text \<open>
  A GUI on which the properties are tried: one playlist of three tracks, shown in the
  tree, the last track selected; and a playback state left by an earlier track.
\<close>

definition ex_tracks :: "track list" where
  "ex_tracks =
     [[(''title'', Some ''A''), (''url'', Some ''ua'')],
      [(''title'', Some ''B''), (''url'', Some ''ub'')],
      [(''title'', Some ''C''), (''url'', Some ''uc'')]]"

definition ex_gui :: "string \<Rightarrow> MusicGUI" where
  "ex_gui mode =
     \<lparr>pm = \<lparr>path_file = None, data = [(''pl'', ex_tracks)]\<rparr>, mode_var = mode,
      current_track = Some [(''title'', Some ''C''), (''url'', Some ''uc'')],
      pl_lb = [''pl''], pl_curselection = [0], tr_tv = [0, 1, 2], tr_selection = [2],
      tr_focus = Some 2\<rparr>"

definition ex_state :: PlayingState where
  "ex_state =
     \<lparr>title = Some ''C'', src_url = Some ''uc'', thumb_url = Some ''th'', duration = Some 60,
      start_time = Some 100, paused = Some True, pause_at = Some 130,
      preview_loaded = Some 1, preview_loader_started = Some True\<rparr>"

definition ex_world :: "vc_status \<Rightarrow> world" where
  "ex_world vc =
     \<lparr>ps = ex_state, bot = \<lparr>voice_clients = [vc], channels = [], guilds = []\<rparr>,
      ytdlp_cache = []\<rparr>"






section \<open>Properties of the playlist manager\<close>

lemma update_fresh: "k \<notin> set (map fst al) \<Longrightarrow> AList.update k v al = al @ [(k, v)]"
  by (induction al) auto

lemma delete_filter: "AList.delete k al = filter (\<lambda>(k', _). k' \<noteq> k) al"
  by (induction al) auto

lemma dict_has_map_of: "dict_has d k \<Longrightarrow> \<exists>v. map_of d k = Some v"
  by (induction d) (auto simp: dict_has_def)

lemma data_save: "data (save io x) = data x"
  by (cases io) (simp_all add: save_def)

text \<open>
  C10: \<open>rename_playlist\<close> with an existing old name and a fresh new name keeps the track
  list and moves the playlist to the last position of the store; the other playlists keep
  their order. With the old name missing or the new name taken it changes nothing.
\<close>

theorem rename_playlist_moves_last:
  "(dict_has (data m) old \<and> \<not> dict_has (data m) new \<longrightarrow>
      (\<exists>tracks. map_of (data m) old = Some tracks \<and>
         data (rename_playlist io old new m)
           = filter (\<lambda>(k, _). k \<noteq> old) (data m) @ [(new, tracks)]))
   \<and> (\<not> dict_has (data m) old \<or> dict_has (data m) new \<longrightarrow>
        rename_playlist io old new m = m)"
proof (intro conjI impI)
  assume a: "dict_has (data m) old \<and> \<not> dict_has (data m) new"
  then obtain tracks where t: "map_of (data m) old = Some tracks"
    by (auto dest: dict_has_map_of)
  have fresh: "new \<notin> set (map fst (AList.delete old (data m)))"
    using a by (auto simp: dict_has_def delete_filter)
  have "rename_playlist io old new m
          = save io (m\<lparr>data := AList.update new tracks (AList.delete old (data m))\<rparr>)"
    using a t by (simp add: rename_playlist_def)
  then have "data (rename_playlist io old new m)
          = AList.delete old (data m) @ [(new, tracks)]"
    by (simp add: data_save update_fresh[OF fresh])
  then show "\<exists>tracks. map_of (data m) old = Some tracks \<and>
         data (rename_playlist io old new m)
           = filter (\<lambda>(k, _). k \<noteq> old) (data m) @ [(new, tracks)]"
    using t by (simp add: delete_filter)
next
  assume "\<not> dict_has (data m) old \<or> dict_has (data m) new"
  then show "rename_playlist io old new m = m"
    by (auto simp: rename_playlist_def)
qed

theorem rename_playlist_moves_last_witness:
  "dict_has [(''a'', [[(''title'', Some ''t'')]]), (''b'', [])] ''a''
   \<and> \<not> dict_has [(''a'', [[(''title'', Some ''t'')]]), (''b'', [])] ''c''
   \<and> data (rename_playlist WriteOk ''a'' ''c''
        \<lparr>path_file = None, data = [(''a'', [[(''title'', Some ''t'')]]), (''b'', [])]\<rparr>)
      = [(''b'', []), (''c'', [[(''title'', Some ''t'')]])]"
  using rename_playlist_moves_last
    [of "\<lparr>path_file = None, data = [(''a'', [[(''title'', Some ''t'')]]), (''b'', [])]\<rparr>"
        "''a''" "''c''" WriteOk]
  by (simp add: dict_has_def)

lemma tracks_of_missing: "\<not> dict_has (data m) name \<Longrightarrow> tracks_of m name = Inl KeyError"
  by (simp add: tracks_of_def)

text \<open>
  C4, as stated, fails: a track operation on a playlist name that the store does not have
  is not silent, \<open>_tracks\<close> raises \<open>KeyError\<close>.
\<close>

theorem add_track_missing_playlist_raises:
  "fst (add_track WriteOk ''x'' [(''title'', Some ''t'')] \<lparr>path_file = None, data = []\<rparr>)
     = Some KeyError"
  by (simp add: add_track_def tracks_of_def dict_has_def)

text \<open>
  C4, amended: with a playlist name that the store does not have, \<open>rename_playlist\<close> and
  \<open>delete_playlist\<close> change nothing and raise nothing, and \<open>add_track\<close>,
  \<open>rename_track\<close>, \<open>delete_track\<close> and \<open>move_track\<close> raise \<open>KeyError\<close> and leave the
  manager as it was. With an index out of range, \<open>rename_track\<close> and \<open>delete_track\<close> do
  nothing; \<open>move_track\<close> and \<open>move_playlist\<close> do nothing when the target index
  \<open>idx + delta\<close> is out of range.
\<close>

theorem missing_resource_behaviour:
  "(\<not> dict_has (data m) name \<longrightarrow>
      rename_playlist io name new m = m \<and> delete_playlist io name m = m
      \<and> add_track io name tr m = (Some KeyError, m)
      \<and> rename_track io name idx t m = (Some KeyError, m)
      \<and> delete_track io name idx m = (Some KeyError, m)
      \<and> move_track io name idx delta m = (Some KeyError, m))
   \<and> (tracks_of m name = Inr tracks \<and> \<not> (0 \<le> idx \<and> idx < int (length tracks)) \<longrightarrow>
        rename_track io name idx t m = (None, m) \<and> delete_track io name idx m = (None, m))
   \<and> (tracks_of m name = Inr tracks
        \<and> \<not> (0 \<le> idx + delta \<and> idx + delta < int (length tracks)) \<longrightarrow>
        move_track io name idx delta m = (None, m))
   \<and> (\<not> (0 \<le> idx + delta \<and> idx + delta < int (length (data m))) \<longrightarrow>
        move_playlist io idx delta m = (None, m))"
proof (intro conjI impI)
  assume a: "\<not> dict_has (data m) name"
  show "rename_playlist io name new m = m" using a by (simp add: rename_playlist_def)
  show "delete_playlist io name m = m" using a by (simp add: delete_playlist_def)
  show "add_track io name tr m = (Some KeyError, m)"
    by (simp add: add_track_def tracks_of_missing[OF a])
  show "rename_track io name idx t m = (Some KeyError, m)"
    by (simp add: rename_track_def tracks_of_missing[OF a])
  show "delete_track io name idx m = (Some KeyError, m)"
    by (simp add: delete_track_def tracks_of_missing[OF a])
  show "move_track io name idx delta m = (Some KeyError, m)"
    by (simp add: move_track_def tracks_of_missing[OF a])
next
  assume a: "tracks_of m name = Inr tracks \<and> \<not> (0 \<le> idx \<and> idx < int (length tracks))"
  show "rename_track io name idx t m = (None, m)" using a by (auto simp: rename_track_def)
  show "delete_track io name idx m = (None, m)" using a by (auto simp: delete_track_def)
next
  assume "tracks_of m name = Inr tracks
        \<and> \<not> (0 \<le> idx + delta \<and> idx + delta < int (length tracks))"
  then show "move_track io name idx delta m = (None, m)"
    by (auto simp: move_track_def Let_def)
next
  assume "\<not> (0 \<le> idx + delta \<and> idx + delta < int (length (data m)))"
  then show "move_playlist io idx delta m = (None, m)"
    by (auto simp: move_playlist_def Let_def)
qed

theorem missing_resource_behaviour_witness:
  "\<not> dict_has [(''a'', [[(''title'', Some ''t'')]])] ''x''
   \<and> add_track WriteOk ''x'' [] \<lparr>path_file = None, data = [(''a'', [[(''title'', Some ''t'')]])]\<rparr>
       = (Some KeyError, \<lparr>path_file = None, data = [(''a'', [[(''title'', Some ''t'')]])]\<rparr>)
   \<and> delete_playlist WriteOk ''x'' \<lparr>path_file = None, data = [(''a'', [[(''title'', Some ''t'')]])]\<rparr>
       = \<lparr>path_file = None, data = [(''a'', [[(''title'', Some ''t'')]])]\<rparr>
   \<and> tracks_of \<lparr>path_file = None, data = [(''a'', [[(''title'', Some ''t'')]])]\<rparr> ''a''
       = Inr [[(''title'', Some ''t'')]]
   \<and> delete_track WriteOk ''a'' 1 \<lparr>path_file = None, data = [(''a'', [[(''title'', Some ''t'')]])]\<rparr>
       = (None, \<lparr>path_file = None, data = [(''a'', [[(''title'', Some ''t'')]])]\<rparr>)
   \<and> move_track WriteOk ''a'' 0 1 \<lparr>path_file = None, data = [(''a'', [[(''title'', Some ''t'')]])]\<rparr>
       = (None, \<lparr>path_file = None, data = [(''a'', [[(''title'', Some ''t'')]])]\<rparr>)
   \<and> move_playlist WriteOk 0 (- 1) \<lparr>path_file = None, data = [(''a'', [[(''title'', Some ''t'')]])]\<rparr>
       = (None, \<lparr>path_file = None, data = [(''a'', [[(''title'', Some ''t'')]])]\<rparr>)"
  using missing_resource_behaviour
      [of "\<lparr>path_file = None, data = [(''a'', [[(''title'', Some ''t'')]])]\<rparr>" "''x''"
          WriteOk "''y''" "[]" 0 "''z''" 0 "[]"]
    missing_resource_behaviour
      [of "\<lparr>path_file = None, data = [(''a'', [[(''title'', Some ''t'')]])]\<rparr>" "''a''"
          WriteOk "''y''" "[]" 1 "''z''" 0 "[[(''title'', Some ''t'')]]"]
    missing_resource_behaviour
      [of "\<lparr>path_file = None, data = [(''a'', [[(''title'', Some ''t'')]])]\<rparr>" "''a''"
          WriteOk "''y''" "[]" 0 "''z''" 1 "[[(''title'', Some ''t'')]]"]
    missing_resource_behaviour
      [of "\<lparr>path_file = None, data = [(''a'', [[(''title'', Some ''t'')]])]\<rparr>" "''a''"
          WriteOk "''y''" "[]" 0 "''z''" "- 1" "[[(''title'', Some ''t'')]]"]
  by (simp add: dict_has_def tracks_of_def dict_get_def)

section \<open>Properties of the controller\<close>

lemma ytdlp_info_ps: "ytdlp_info extract u w = (r, w1) \<Longrightarrow> ps w1 = ps w \<and> bot w1 = bot w"
  by (auto simp: ytdlp_info_def split: option.splits sum.splits)

text \<open>
  C3: \<open>start_playback\<close> with \<open>None\<close> or an empty track returns at once and changes
  nothing; when \<open>ensure_join\<close> returns \<open>None\<close> it returns without an exception and with
  the playback state as it was.
\<close>

theorem start_playback_aborts_silently:
  "(track = None \<or> track = Some [] \<longrightarrow> start_playback cfg extract now track w = (None, w))
   \<and> (track = Some tr \<and> tr \<noteq> [] \<and> dict_get tr ''url'' = Inr u
        \<and> ytdlp_info extract u w = (Inr i, w1)
        \<and> ensure_join cfg (bot w1) = (None, None, b1) \<longrightarrow>
        fst (start_playback cfg extract now track w) = None
        \<and> ps (snd (start_playback cfg extract now track w)) = ps w)"
proof (rule conjI)
  show "track = None \<or> track = Some [] \<longrightarrow> start_playback cfg extract now track w = (None, w)"
    by (auto simp: start_playback_def)
next
  show "track = Some tr \<and> tr \<noteq> [] \<and> dict_get tr ''url'' = Inr u
        \<and> ytdlp_info extract u w = (Inr i, w1)
        \<and> ensure_join cfg (bot w1) = (None, None, b1) \<longrightarrow>
        fst (start_playback cfg extract now track w) = None
        \<and> ps (snd (start_playback cfg extract now track w)) = ps w"
  proof (rule impI)
    assume a: "track = Some tr \<and> tr \<noteq> [] \<and> dict_get tr ''url'' = Inr u
        \<and> ytdlp_info extract u w = (Inr i, w1)
        \<and> ensure_join cfg (bot w1) = (None, None, b1)"
    then have r: "start_playback cfg extract now track w = (None, w1\<lparr>bot := b1\<rparr>)"
      by (simp add: start_playback_def)
    from a have "ps w1 = ps w" using ytdlp_info_ps by blast
    with r show "fst (start_playback cfg extract now track w) = None
        \<and> ps (snd (start_playback cfg extract now track w)) = ps w"
      by simp
  qed
qed

theorem start_playback_aborts_silently_witness:
  "dict_get [(''title'', Some ''T''), (''url'', Some ''u'')] ''url'' = Inr (Some ''u'')
   \<and> ytdlp_info (\<lambda>_. Inr \<lparr>info_url = Some ''s'', info_id = ''v'', info_duration = None\<rparr>) (Some ''u'')
        \<lparr>ps = PLAYING_STATE_init, bot = \<lparr>voice_clients = [], channels = [], guilds = []\<rparr>,
         ytdlp_cache = []\<rparr>
      = (Inr \<lparr>info_url = Some ''s'', info_id = ''v'', info_duration = None\<rparr>,
         \<lparr>ps = PLAYING_STATE_init, bot = \<lparr>voice_clients = [], channels = [], guilds = []\<rparr>,
          ytdlp_cache = [(Some ''u'', \<lparr>info_url = Some ''s'', info_id = ''v'', info_duration = None\<rparr>)]\<rparr>)
   \<and> ensure_join \<lparr>VOICE_ID = 0, TARGET_USER_ID = 7, ffmpeg_ok = True\<rparr>
        \<lparr>voice_clients = [], channels = [], guilds = []\<rparr>
      = (None, None, \<lparr>voice_clients = [], channels = [], guilds = []\<rparr>)
   \<and> fst (start_playback \<lparr>VOICE_ID = 0, TARGET_USER_ID = 7, ffmpeg_ok = True\<rparr>
        (\<lambda>_. Inr \<lparr>info_url = Some ''s'', info_id = ''v'', info_duration = None\<rparr>) 10
        (Some [(''title'', Some ''T''), (''url'', Some ''u'')])
        \<lparr>ps = PLAYING_STATE_init, bot = \<lparr>voice_clients = [], channels = [], guilds = []\<rparr>,
         ytdlp_cache = []\<rparr>) = None
   \<and> ps (snd (start_playback \<lparr>VOICE_ID = 0, TARGET_USER_ID = 7, ffmpeg_ok = True\<rparr>
        (\<lambda>_. Inr \<lparr>info_url = Some ''s'', info_id = ''v'', info_duration = None\<rparr>) 10
        (Some [(''title'', Some ''T''), (''url'', Some ''u'')])
        \<lparr>ps = PLAYING_STATE_init, bot = \<lparr>voice_clients = [], channels = [], guilds = []\<rparr>,
         ytdlp_cache = []\<rparr>)) = PLAYING_STATE_init
   \<and> start_playback \<lparr>VOICE_ID = 0, TARGET_USER_ID = 7, ffmpeg_ok = True\<rparr>
        (\<lambda>_. Inr \<lparr>info_url = Some ''s'', info_id = ''v'', info_duration = None\<rparr>) 10
        (Some [])
        \<lparr>ps = PLAYING_STATE_init, bot = \<lparr>voice_clients = [], channels = [], guilds = []\<rparr>,
         ytdlp_cache = []\<rparr>
      = (None, \<lparr>ps = PLAYING_STATE_init, bot = \<lparr>voice_clients = [], channels = [], guilds = []\<rparr>,
         ytdlp_cache = []\<rparr>)"
proof -
  let ?cfg = "\<lparr>VOICE_ID = 0, TARGET_USER_ID = 7, ffmpeg_ok = True\<rparr>"
  let ?i = "\<lparr>info_url = Some ''s'', info_id = ''v'', info_duration = None\<rparr>"
  let ?b = "\<lparr>voice_clients = [], channels = [], guilds = []\<rparr>"
  let ?w = "\<lparr>ps = PLAYING_STATE_init, bot = ?b, ytdlp_cache = []\<rparr>"
  let ?w1 = "\<lparr>ps = PLAYING_STATE_init, bot = ?b, ytdlp_cache = [(Some ''u'', ?i)]\<rparr>"
  let ?tr = "[(''title'', Some ''T''), (''url'', Some ''u'')]"
  have h1: "dict_get ?tr ''url'' = Inr (Some ''u'')" by (simp add: dict_get_def)
  have h2: "ytdlp_info (\<lambda>_. Inr ?i) (Some ''u'') ?w = (Inr ?i, ?w1)"
    by (simp add: ytdlp_info_def)
  have h3: "ensure_join ?cfg (bot ?w1) = (None, None, ?b)"
    by (simp add: ensure_join_def)
  from start_playback_aborts_silently
         [of "Some ?tr" ?cfg "\<lambda>_. Inr ?i" 10 ?w ?tr "Some ''u''" ?i ?w1 ?b] h1 h2 h3
  have c1: "fst (start_playback ?cfg (\<lambda>_. Inr ?i) 10 (Some ?tr) ?w) = None
     \<and> ps (snd (start_playback ?cfg (\<lambda>_. Inr ?i) 10 (Some ?tr) ?w)) = PLAYING_STATE_init"
    by simp
  from start_playback_aborts_silently
         [of "Some []" ?cfg "\<lambda>_. Inr ?i" 10 ?w ?tr "Some ''u''" ?i ?w1 ?b]
  have c2: "start_playback ?cfg (\<lambda>_. Inr ?i) 10 (Some []) ?w = (None, ?w)"
    by simp
  from h1 h2 h3 c1 c2 show ?thesis by simp
qed

section \<open>Properties of the end-of-track policy\<close>

lemma lb_get_selection [simp]:
  "lb_get (g\<lparr>tr_selection := a, tr_focus := b\<rparr>) p = lb_get g p"
  by (simp add: lb_get_def)







section \<open>Stopping and clearing\<close>

text \<open>
  C5, at a state where the code departs from it: mode \<open>stop\<close>, a track playing, the voice
  client still streaming. The policy clears the current track and the playback state, so
  \<open>is_playing\<close> is false, but the dispatched \<open>_halt\<close> raises \<open>AttributeError\<close> and leaves
  the voice client playing, and the cleared fields hold \<open>None\<close>, not the defaults of
  \<open>PlayingState()\<close>.
\<close>

theorem on_track_end_stop_leaves_stream:
  "on_track_end (\<lambda>n. 0) (ex_gui ''stop'') ex_state
     = (None, (ex_gui ''stop'')\<lparr>current_track := None\<rparr>, clear ex_state, [Halt])
   \<and> \<not> is_playing (clear ex_state)
   \<and> halt (ex_world Playing) = (Some AttributeError, ex_world Playing)
   \<and> voice_clients (bot (snd (halt (ex_world Playing)))) = [Playing]
   \<and> duration (clear ex_state) = None \<and> duration PLAYING_STATE_init = Some 0
   \<and> clear ex_state \<noteq> PLAYING_STATE_init"
proof -
  have d: "duration (clear ex_state) = None" by (simp add: clear_def)
  have i: "duration PLAYING_STATE_init = Some 0" by (simp add: PLAYING_STATE_init_def)
  from d i have ne: "clear ex_state \<noteq> PLAYING_STATE_init" by auto
  have o: "on_track_end (\<lambda>n. 0) (ex_gui ''stop'') ex_state
     = (None, (ex_gui ''stop'')\<lparr>current_track := None\<rparr>, clear ex_state, [Halt])"
    by (simp add: on_track_end_def ex_gui_def)
  have p: "\<not> is_playing (clear ex_state)"
    by (simp add: is_playing_def clear_def bool_str_def)
  have h: "halt (ex_world Playing) = (Some AttributeError, ex_world Playing)"
    by (simp add: halt_def)
  have v: "voice_clients (bot (snd (halt (ex_world Playing)))) = [Playing]"
    by (simp add: halt_def ex_world_def)
  from o p h v d i ne show ?thesis by blast
qed

text \<open>
  C2, at a state where the code departs from it: a new track starts while the earlier one
  is paused. The call succeeds, the title, the URL and the start time are those of the new
  track, and nothing of the earlier track stays; but \<open>paused\<close> and \<open>pause_at\<close>, which
  \<open>start_playback\<close> does not write after \<open>clear\<close>, hold \<open>None\<close>, not the defaults \<open>False\<close>
  and \<open>0.0\<close>.
\<close>

theorem start_playback_clears_to_None:
  "start_playback \<lparr>VOICE_ID = 0, TARGET_USER_ID = 0, ffmpeg_ok = True\<rparr>
      (\<lambda>_. Inr \<lparr>info_url = Some ''s'', info_id = ''v'', info_duration = Some (Some 90)\<rparr>) 200
      (Some [(''title'', Some ''N''), (''url'', Some ''un'')]) (ex_world Paused)
     = (None,
        \<lparr>ps = \<lparr>title = Some ''N'', src_url = Some ''un'',
                thumb_url = Some ''https://i.ytimg.com/vi/v/hqdefault.jpg'',
                duration = Some 90, start_time = Some 200, paused = None, pause_at = None,
                preview_loaded = None, preview_loader_started = Some False\<rparr>,
         bot = \<lparr>voice_clients = [Playing], channels = [], guilds = []\<rparr>,
         ytdlp_cache = [(Some ''un'',
            \<lparr>info_url = Some ''s'', info_id = ''v'', info_duration = Some (Some 90)\<rparr>)]\<rparr>)
   \<and> paused PLAYING_STATE_init = Some False \<and> pause_at PLAYING_STATE_init = Some 0"
  by (simp add: start_playback_def ex_world_def ex_state_def dict_get_def ytdlp_info_def
        ensure_join_def replace_stream_def update_state_def clear_def PLAYING_STATE_init_def)

section \<open>Properties of the playback state\<close>








lemma synced_same_ps:
  "synced w \<Longrightarrow> ps w' = ps w \<Longrightarrow>
     voice_clients (bot w') = voice_clients (bot w)
       \<or> (voice_clients (bot w') \<noteq> [Paused] \<and> length (voice_clients (bot w')) \<le> 1) \<Longrightarrow>
     synced w'"
  by (auto simp: synced_def)


lemma synced_not_playing:
  "length (voice_clients (bot w')) \<le> 1 \<Longrightarrow> \<not> is_playing (ps w') \<Longrightarrow> synced w'"
  by (simp add: synced_def)












section \<open>Pause and resume\<close>







section \<open>The round trip through the playlist file\<close>








































end
